theory Spec2Isabelle
  imports Complex_Main
begin

section \<open>JSON values and JavaScript strings\<close>

text \<open>
  The tool arguments, the provider's response bodies and the request bodies are JSON values.
  A JSON number is a finite rational (JSON has neither NaN nor an infinity); an object is an
  association list, its keys in insertion order, read with \<open>map_of\<close> (a missing key is
  JavaScript's \<open>undefined\<close>, here \<open>None\<close>). Strings are byte sequences (UTF-8).
\<close>

datatype json =
    JNull
  | JBool bool
  | JNum rat
  | JStr string
  | JArr "json list"
  | JObj "(string \<times> json) list"

text \<open>
  \<open>Number.prototype.toString\<close> on an integer, and the \<open>${index}\<close> of a template
  literal: the decimal digits, most significant first (exact below \<open>10^21\<close>, where
  JavaScript switches to the exponent form), after a minus sign for a negative number.
\<close>

definition decimal_digit :: "nat \<Rightarrow> char" where
  "decimal_digit d = ''0123456789'' ! d"

fun nat_toString :: "nat \<Rightarrow> string" where
  "nat_toString n =
     (if 10 \<le> n then nat_toString (n div 10) @ [decimal_digit (n mod 10)]
      else [decimal_digit n])"

declare nat_toString.simps [simp del]

definition int_toString :: "int \<Rightarrow> string" where
  "int_toString i =
     (if 0 \<le> i then nat_toString (nat i) else CHR ''-'' # nat_toString (nat (- i)))"

text \<open>
  A base, table or record id is a string that may reach a callback undefined (see the
  registration of the tools below). The code only interpolates such an id into template
  literals, where an undefined value reads as the text \<open>undefined\<close>; an id that may be
  undefined is passed on as the text it is interpolated as.
\<close>

definition js_string :: "string option \<Rightarrow> string" where
  "js_string v = (case v of None \<Rightarrow> ''undefined'' | Some s \<Rightarrow> s)"



section \<open>The validation library\<close>

text \<open>
  The schemas of the tools are built from the combinators of the zod library, which is not
  part of the repository. Each combinator is modelled by what it accepts: a parser takes
  the raw value (\<open>None\<close> when the property is absent) and returns the validated value or
  the message of an issue. zod reports all issues of a value at once; the model keeps the
  first, acceptance is the same.
\<close>

type_synonym 'a parser = "json option \<Rightarrow> string + 'a"

text \<open>Sequencing of steps that may fail: the first failure is the result.\<close>

definition and_then :: "string + 'a \<Rightarrow> ('a \<Rightarrow> string + 'b) \<Rightarrow> string + 'b" where
  "and_then r f = (case r of Inl e \<Rightarrow> Inl e | Inr x \<Rightarrow> f x)"

text \<open>\<open>z.string()\<close>\<close>

definition z_string :: "string parser" where
  "z_string v =
     (case v of
        None \<Rightarrow> Inl ''Required''
      | Some (JStr s) \<Rightarrow> Inr s
      | Some _ \<Rightarrow> Inl ''Expected string'')"

text \<open>\<open>z.number()\<close>\<close>

definition z_number :: "rat parser" where
  "z_number v =
     (case v of
        None \<Rightarrow> Inl ''Required''
      | Some (JNum r) \<Rightarrow> Inr r
      | Some _ \<Rightarrow> Inl ''Expected number'')"

text \<open>
  \<open>.int()\<close>: \<open>Number.isInteger\<close>, that is, the number is its own integer part;
  the validated number is then kept as an integer.
\<close>

definition z_int :: "rat parser \<Rightarrow> int parser" where
  "z_int p v =
     and_then (p v)
       (\<lambda>r. if of_int \<lfloor>r\<rfloor> = r then Inr \<lfloor>r\<rfloor> else Inl ''Expected integer, received float'')"

text \<open>\<open>.positive()\<close>\<close>

definition z_positive :: "int parser \<Rightarrow> int parser" where
  "z_positive p v =
     and_then (p v) (\<lambda>i. if 0 < i then Inr i else Inl ''Number must be greater than 0'')"

text \<open>\<open>.max(n)\<close> on a number\<close>

definition z_max_num :: "int \<Rightarrow> int parser \<Rightarrow> int parser" where
  "z_max_num n p v =
     and_then (p v) (\<lambda>i. if i \<le> n then Inr i
                       else Inl (''Number must be less than or equal to '' @ int_toString n))"

text \<open>
  \<open>.min(n, message)\<close> and \<open>.max(n, message)\<close> on a string or an array: a bound on
  its length. (A JavaScript string counts UTF-16 units, the model bytes; the schemas only
  use \<open>min(1)\<close> on strings, and a string has no unit iff it has no byte.)
\<close>

definition z_min :: "nat \<Rightarrow> string \<Rightarrow> 'a list parser \<Rightarrow> 'a list parser" where
  "z_min n msg p v = and_then (p v) (\<lambda>xs. if n \<le> length xs then Inr xs else Inl msg)"

definition z_max :: "nat \<Rightarrow> string \<Rightarrow> 'a list parser \<Rightarrow> 'a list parser" where
  "z_max n msg p v = and_then (p v) (\<lambda>xs. if length xs \<le> n then Inr xs else Inl msg)"

text \<open>\<open>.optional()\<close>: an absent value is accepted, \<open>null\<close> is not.\<close>

definition z_optional :: "'a parser \<Rightarrow> 'a option parser" where
  "z_optional p v = (case v of None \<Rightarrow> Inr None | Some _ \<Rightarrow> and_then (p v) (\<lambda>x. Inr (Some x)))"

text \<open>\<open>z.array(element)\<close>\<close>

fun z_elements :: "'a parser \<Rightarrow> json list \<Rightarrow> string + 'a list" where
  "z_elements p [] = Inr []"
| "z_elements p (x # xs) =
     and_then (p (Some x)) (\<lambda>y. and_then (z_elements p xs) (\<lambda>ys. Inr (y # ys)))"

definition z_array :: "'a parser \<Rightarrow> 'a list parser" where
  "z_array p v =
     (case v of
        None \<Rightarrow> Inl ''Required''
      | Some (JArr xs) \<Rightarrow> z_elements p xs
      | Some _ \<Rightarrow> Inl ''Expected array'')"

text \<open>\<open>z.enum(["asc", "desc"])\<close>\<close>

datatype direction = Asc | Desc

definition direction_string :: "direction \<Rightarrow> string" where
  "direction_string d = (case d of Asc \<Rightarrow> ''asc'' | Desc \<Rightarrow> ''desc'')"

definition z_enum_asc_desc :: "direction parser" where
  "z_enum_asc_desc v =
     and_then (z_string v)
       (\<lambda>s. if s = ''asc'' then Inr Asc else if s = ''desc'' then Inr Desc
            else Inl ''Invalid enum value'')"

text \<open>\<open>z.record(z.any())\<close>: any object, its values unchecked.\<close>

definition z_record_any :: "(string \<times> json) list parser" where
  "z_record_any v =
     (case v of
        None \<Rightarrow> Inl ''Required''
      | Some (JObj kvs) \<Rightarrow> Inr kvs
      | Some _ \<Rightarrow> Inl ''Expected object'')"

text \<open>
  \<open>z.object(shape)\<close>: the value must be an object; each property of the shape is then
  parsed from the property of that name (unknown properties are dropped).
\<close>

definition z_object :: "((string \<Rightarrow> json option) \<Rightarrow> string + 'a) \<Rightarrow> 'a parser" where
  "z_object shape v =
     (case v of
        None \<Rightarrow> Inl ''Required''
      | Some (JObj kvs) \<Rightarrow> shape (map_of kvs)
      | Some _ \<Rightarrow> Inl ''Expected object'')"

section \<open>The schemas of the tools\<close>

text \<open>
  A schema returns the validated arguments as the tuple that the tool's callback
  destructures, in the order of the schema's properties.
\<close>

definition ListBasesSchema :: "unit parser" where
  "ListBasesSchema = z_object (\<lambda>raw. Inr ())"

definition ListTablesSchema :: "string parser" where
  "ListTablesSchema = z_object (\<lambda>raw.
     and_then (z_min 1 ''Base ID is required'' z_string (raw ''baseId'')) (\<lambda>baseId.
     Inr baseId))"

definition DescribeTableSchema :: "(string \<times> string) parser" where
  "DescribeTableSchema = z_object (\<lambda>raw.
     and_then (z_min 1 ''Base ID is required'' z_string (raw ''baseId'')) (\<lambda>baseId.
     and_then (z_min 1 ''Table ID is required'' z_string (raw ''tableId'')) (\<lambda>tableId.
     Inr (baseId, tableId))))"

text \<open>An entry of \<open>sort\<close>: \<open>{ field, direction? }\<close>.\<close>

type_synonym sort_item = "string \<times> direction option"

definition SortItemSchema :: "sort_item parser" where
  "SortItemSchema = z_object (\<lambda>raw.
     and_then (z_string (raw ''field'')) (\<lambda>field.
     and_then (z_optional z_enum_asc_desc (raw ''direction'')) (\<lambda>direction.
     Inr (field, direction))))"

text \<open>The options of \<open>AirtableService.listRecords\<close>: view, maxRecords, sort, filterByFormula.\<close>

type_synonym list_options = "string option \<times> int option \<times> sort_item list option \<times> string option"

definition ListRecordsSchema :: "(string \<times> string \<times> list_options) parser" where
  "ListRecordsSchema = z_object (\<lambda>raw.
     and_then (z_min 1 ''Base ID is required'' z_string (raw ''baseId'')) (\<lambda>baseId.
     and_then (z_min 1 ''Table ID is required'' z_string (raw ''tableId'')) (\<lambda>tableId.
     and_then (z_optional z_string (raw ''view'')) (\<lambda>view.
     and_then (z_optional (z_max_num 100 (z_positive (z_int z_number))) (raw ''maxRecords''))
       (\<lambda>maxRecords.
     and_then (z_optional (z_array SortItemSchema) (raw ''sort'')) (\<lambda>sort.
     and_then (z_optional z_string (raw ''filterByFormula'')) (\<lambda>filterByFormula.
     Inr (baseId, tableId, view, maxRecords, sort, filterByFormula))))))))"

definition GetRecordSchema :: "(string \<times> string \<times> string) parser" where
  "GetRecordSchema = z_object (\<lambda>raw.
     and_then (z_min 1 ''Base ID is required'' z_string (raw ''baseId'')) (\<lambda>baseId.
     and_then (z_min 1 ''Table ID is required'' z_string (raw ''tableId'')) (\<lambda>tableId.
     and_then (z_min 1 ''Record ID is required'' z_string (raw ''recordId'')) (\<lambda>recordId.
     Inr (baseId, tableId, recordId)))))"

definition CreateRecordSchema :: "(string \<times> string \<times> (string \<times> json) list) parser" where
  "CreateRecordSchema = z_object (\<lambda>raw.
     and_then (z_min 1 ''Base ID is required'' z_string (raw ''baseId'')) (\<lambda>baseId.
     and_then (z_min 1 ''Table ID is required'' z_string (raw ''tableId'')) (\<lambda>tableId.
     and_then (z_record_any (raw ''fields'')) (\<lambda>fields.
     Inr (baseId, tableId, fields)))))"

text \<open>An entry of \<open>records\<close>: \<open>{ id, fields }\<close>.\<close>

type_synonym update_entry = "string \<times> (string \<times> json) list"

definition UpdateEntrySchema :: "update_entry parser" where
  "UpdateEntrySchema = z_object (\<lambda>raw.
     and_then (z_string (raw ''id'')) (\<lambda>id.
     and_then (z_record_any (raw ''fields'')) (\<lambda>fields.
     Inr (id, fields))))"

definition UpdateRecordsSchema :: "(string \<times> string \<times> update_entry list) parser" where
  "UpdateRecordsSchema = z_object (\<lambda>raw.
     and_then (z_min 1 ''Base ID is required'' z_string (raw ''baseId'')) (\<lambda>baseId.
     and_then (z_min 1 ''Table ID is required'' z_string (raw ''tableId'')) (\<lambda>tableId.
     and_then (z_max 10 ''Maximum 10 records allowed''
              (z_min 1 ''At least one record is required'' (z_array UpdateEntrySchema))
              (raw ''records'')) (\<lambda>records.
     Inr (baseId, tableId, records)))))"

definition DeleteRecordsSchema :: "(string \<times> string \<times> string list) parser" where
  "DeleteRecordsSchema = z_object (\<lambda>raw.
     and_then (z_min 1 ''Base ID is required'' z_string (raw ''baseId'')) (\<lambda>baseId.
     and_then (z_min 1 ''Table ID is required'' z_string (raw ''tableId'')) (\<lambda>tableId.
     and_then (z_max 10 ''Maximum 10 record IDs allowed''
              (z_min 1 ''At least one record ID is required'' (z_array z_string))
              (raw ''recordIds'')) (\<lambda>recordIds.
     Inr (baseId, tableId, recordIds)))))"

definition SearchRecordsSchema :: "(string \<times> string \<times> string \<times> int option) parser" where
  "SearchRecordsSchema = z_object (\<lambda>raw.
     and_then (z_min 1 ''Base ID is required'' z_string (raw ''baseId'')) (\<lambda>baseId.
     and_then (z_min 1 ''Table ID is required'' z_string (raw ''tableId'')) (\<lambda>tableId.
     and_then (z_min 1 ''Formula is required for search'' z_string (raw ''filterByFormula''))
       (\<lambda>filterByFormula.
     and_then (z_optional (z_max_num 100 (z_positive (z_int z_number))) (raw ''maxRecords''))
       (\<lambda>maxRecords.
     Inr (baseId, tableId, filterByFormula, maxRecords))))))"

section \<open>The platform: HTTP and JSON serialisation\<close>

record request =
  url :: string
  "method" :: "string option"
  headers :: "(string \<times> string) list"
  body :: "string option"

text \<open>
  A response: the \<open>ok\<close> flag, the status line, the body as text, and what
  \<open>response.json()\<close> gives (\<open>Inl\<close> the message of the error it throws on a body that
  is not JSON).
\<close>

record response =
  resp_ok :: bool
  resp_status :: nat
  resp_statusText :: string
  resp_text :: string
  resp_json :: "string + json"

text \<open>
  The platform is a parameter of the model: \<open>fetch\<close> answers a request with a response
  or throws (\<open>Inl\<close> the message of the error), and \<open>JSON.stringify\<close> serialises a
  value, with an optional indentation. An error is represented by its message, which is
  all that the handlers read of it.
\<close>

record runtime =
  fetch :: "request \<Rightarrow> string + response"
  JSON_stringify :: "json \<Rightarrow> nat option \<Rightarrow> string"

text \<open>
  A computation that may call the provider takes the list of the requests issued so far
  and returns it extended.
\<close>

type_synonym 'a io = "request list \<Rightarrow> 'a \<times> request list"

text \<open>
  \<open>URLSearchParams.toString()\<close>: the pairs in order, joined by \<open>&\<close>, names and values
  form-urlencoded (letters, digits and \<open>* - . _\<close> are kept, a space is \<open>+\<close>, any other
  byte is \<open>%XX\<close>).
\<close>

definition hex_digit :: "nat \<Rightarrow> char" where
  "hex_digit n = ''0123456789ABCDEF'' ! n"

definition form_encode_byte :: "char \<Rightarrow> string" where
  "form_encode_byte c =
     (if c \<in> set ''abcdefghijklmnopqrstuvwxyzABCDEFGHIJKLMNOPQRSTUVWXYZ0123456789*-._'' then [c]
      else if c = CHR '' '' then ''+''
      else [CHR ''%'', hex_digit (of_char c div 16), hex_digit (of_char c mod 16)])"

definition form_encode :: "string \<Rightarrow> string" where
  "form_encode s = concat (map form_encode_byte s)"

fun join_amp :: "string list \<Rightarrow> string" where
  "join_amp [] = []"
| "join_amp [x] = x"
| "join_amp (x # y # ys) = x @ ''&'' @ join_amp (y # ys)"

definition URLSearchParams_toString :: "(string \<times> string) list \<Rightarrow> string" where
  "URLSearchParams_toString params =
     join_amp (map (\<lambda>(k, v). form_encode k @ ''='' @ form_encode v) params)"

section \<open>AirtableService\<close>

record AirtableService =
  apiKey :: string

definition baseUrl :: string where
  "baseUrl = ''https://api.airtable.com/v0''"

text \<open>The options that the methods pass to \<open>makeRequest\<close>: a method and a body.\<close>

record RequestInit =
  init_method :: "string option"
  init_body :: "string option"

definition makeRequest :: "runtime \<Rightarrow> AirtableService \<Rightarrow> string \<Rightarrow> RequestInit \<Rightarrow> (string + json) io" where
  "makeRequest rt this endpoint options issued =
     (let req = \<lparr> url = baseUrl @ endpoint,
                  method = init_method options,
                  headers = [(''Authorization'', ''Bearer '' @ apiKey this),
                             (''Content-Type'', ''application/json'')],
                  body = init_body options \<rparr>;
          issued' = issued @ [req]
      in case fetch rt req of
           Inl thrown \<Rightarrow> (Inl thrown, issued')
         | Inr response \<Rightarrow>
             if \<not> resp_ok response
             then (Inl (''Airtable API error: '' @ nat_toString (resp_status response) @ '' ''
                        @ resp_statusText response @ '' - '' @ resp_text response), issued')
             else (resp_json response, issued'))"

definition listBases :: "runtime \<Rightarrow> AirtableService \<Rightarrow> (string + json) io" where
  "listBases rt this =
     makeRequest rt this ''/meta/bases'' \<lparr> init_method = None, init_body = None \<rparr>"

definition getBaseSchema :: "runtime \<Rightarrow> AirtableService \<Rightarrow> string \<Rightarrow> (string + json) io" where
  "getBaseSchema rt this baseId =
     makeRequest rt this (''/meta/bases/'' @ baseId @ ''/tables'')
       \<lparr> init_method = None, init_body = None \<rparr>"

text \<open>
  The parameters of \<open>listRecords\<close>. Each \<open>if (options.x)\<close> tests truthiness: an absent
  value, an empty string and the number 0 add nothing; an array, empty or not, is truthy.
\<close>

definition sort_params :: "nat \<times> sort_item \<Rightarrow> (string \<times> string) list" where
  "sort_params = (\<lambda>(index, (field, direction)).
     [(''sort['' @ nat_toString index @ ''][field]'', field)]
     @ (case direction of
          None \<Rightarrow> []
        | Some d \<Rightarrow> [(''sort['' @ nat_toString index @ ''][direction]'', direction_string d)]))"

definition listRecords_params :: "list_options \<Rightarrow> (string \<times> string) list" where
  "listRecords_params = (\<lambda>(view, maxRecords, sort, filterByFormula).
     (case view of None \<Rightarrow> [] | Some v \<Rightarrow> if v \<noteq> [] then [(''view'', v)] else [])
     @ (case maxRecords of None \<Rightarrow> []
        | Some n \<Rightarrow> if n \<noteq> 0 then [(''maxRecords'', int_toString n)] else [])
     @ (case filterByFormula of None \<Rightarrow> []
        | Some f \<Rightarrow> if f \<noteq> [] then [(''filterByFormula'', f)] else [])
     @ (case sort of None \<Rightarrow> []
        | Some items \<Rightarrow> concat (map sort_params (enumerate 0 items))))"

definition listRecords ::
  "runtime \<Rightarrow> AirtableService \<Rightarrow> string \<Rightarrow> string \<Rightarrow> list_options \<Rightarrow> (string + json) io" where
  "listRecords rt this baseId tableId options =
     (let queryString = URLSearchParams_toString (listRecords_params options);
          endpoint = ''/'' @ baseId @ ''/'' @ tableId
                     @ (if queryString \<noteq> [] then ''?'' @ queryString else [])
      in makeRequest rt this endpoint \<lparr> init_method = None, init_body = None \<rparr>)"

definition getRecord ::
  "runtime \<Rightarrow> AirtableService \<Rightarrow> string \<Rightarrow> string \<Rightarrow> string \<Rightarrow> (string + json) io" where
  "getRecord rt this baseId tableId recordId =
     makeRequest rt this (''/'' @ baseId @ ''/'' @ tableId @ ''/'' @ recordId)
       \<lparr> init_method = None, init_body = None \<rparr>"

text \<open>
  The three writing methods. Their payload may reach them undefined (see the registration
  of the tools below): \<open>JSON.stringify\<close> leaves a property out whose value is
  undefined, so that \<open>{ fields }\<close> and \<open>{ records }\<close> are then the empty object,
  and \<open>recordIds.forEach\<close> on an undefined value throws a TypeError before any request
  is built (the wording of the message is the engine's).
\<close>

definition createRecord ::
  "runtime \<Rightarrow> AirtableService \<Rightarrow> string \<Rightarrow> string \<Rightarrow> (string \<times> json) list option \<Rightarrow> (string + json) io" where
  "createRecord rt this baseId tableId = (\<lambda>fields.
     makeRequest rt this (''/'' @ baseId @ ''/'' @ tableId)
       \<lparr> init_method = Some ''POST'',
         init_body = Some (JSON_stringify rt
           (JObj (case fields of None \<Rightarrow> [] | Some fs \<Rightarrow> [(''fields'', JObj fs)])) None) \<rparr>)"

definition entry_json :: "update_entry \<Rightarrow> json" where
  "entry_json = (\<lambda>(id, fields). JObj [(''id'', JStr id), (''fields'', JObj fields)])"

definition updateRecords ::
  "runtime \<Rightarrow> AirtableService \<Rightarrow> string \<Rightarrow> string \<Rightarrow> update_entry list option \<Rightarrow> (string + json) io" where
  "updateRecords rt this baseId tableId records =
     makeRequest rt this (''/'' @ baseId @ ''/'' @ tableId)
       \<lparr> init_method = Some ''PATCH'',
         init_body = Some (JSON_stringify rt
           (JObj (case records of None \<Rightarrow> []
                  | Some rs \<Rightarrow> [(''records'', JArr (map entry_json rs))])) None) \<rparr>"

definition deleteRecords ::
  "runtime \<Rightarrow> AirtableService \<Rightarrow> string \<Rightarrow> string \<Rightarrow> string list option \<Rightarrow> (string + json) io" where
  "deleteRecords rt this baseId tableId recordIds issued =
     (case recordIds of
        None \<Rightarrow> (Inl ''Cannot read properties of undefined (reading 'forEach')'', issued)
      | Some ids \<Rightarrow>
          (let params = map (\<lambda>id. (''records[]'', id)) ids
           in makeRequest rt this
                (''/'' @ baseId @ ''/'' @ tableId @ ''?'' @ URLSearchParams_toString params)
                \<lparr> init_method = Some ''DELETE'', init_body = None \<rparr> issued))"

section \<open>The tool handlers\<close>

text \<open>
  A handler returns \<open>{ content: [{ type: "text", text, isError? }] }\<close>; the success
  branch leaves \<open>isError\<close> out, the failure branches set it to \<open>true\<close>.
\<close>

record content_item =
  item_type :: string
  item_text :: string
  isError :: "bool option"

record tool_result =
  content :: "content_item list"

definition success_result :: "string \<Rightarrow> tool_result" where
  "success_result t = \<lparr> content = [\<lparr> item_type = ''text'', item_text = t, isError = None \<rparr>] \<rparr>"

definition error_result :: "string \<Rightarrow> tool_result" where
  "error_result t = \<lparr> content = [\<lparr> item_type = ''text'', item_text = t, isError = Some True \<rparr>] \<rparr>"

text \<open>
  The template literals of the handlers write \<open>\\n\<close>, which is a backslash followed by
  the letter n, and three backquotes around the JSON text.
\<close>

definition nl :: string where
  "nl = [CHR 0x5C, CHR ''n'']"

definition json_block :: "string \<Rightarrow> string \<Rightarrow> string" where
  "json_block title js = ''**'' @ title @ ''**'' @ nl @ nl @ ''```json'' @ nl @ js @ nl @ ''```''"

definition error_text :: "string \<Rightarrow> string \<Rightarrow> string" where
  "error_text what message = ''**Error**'' @ nl @ nl @ ''Failed to '' @ what @ '': '' @ message"

text \<open>
  The body shared by the handlers: \<open>try\<close> the service call and return its result
  serialised with an indentation of 2 under a title; \<open>catch\<close> an error and return its
  message after \<open>Failed to ...\<close>.
\<close>

definition respond :: "runtime \<Rightarrow> string \<Rightarrow> string \<Rightarrow> (string + json) io \<Rightarrow> tool_result io" where
  "respond rt title what call issued =
     (case call issued of
        (Inr result, issued') \<Rightarrow>
          (success_result (json_block title (JSON_stringify rt result (Some 2))), issued')
      | (Inl message, issued') \<Rightarrow> (error_result (error_text what message), issued'))"

text \<open>
  The callbacks of the tools. A callback destructures its parameters from its first
  argument; each parameter is given here as it arrives, \<open>None\<close> when the argument has
  no property of that name (the parameter is then undefined).
\<close>

definition listBases_handler :: "AirtableService \<Rightarrow> runtime \<Rightarrow> unit \<Rightarrow> tool_result io" where
  "listBases_handler airtableService rt = (\<lambda>_.
     respond rt ''Airtable Bases'' ''list bases'' (listBases rt airtableService))"

definition listTables_callback ::
  "AirtableService \<Rightarrow> runtime \<Rightarrow> string option \<Rightarrow> tool_result io" where
  "listTables_callback airtableService rt = (\<lambda>baseId.
     respond rt (''Tables in Base '' @ js_string baseId) ''list tables''
       (getBaseSchema rt airtableService (js_string baseId)))"

text \<open>
  \<open>baseSchema.tables.find(t => t.id === tableId)\<close> on the JSON value that the provider
  returned. Reading a property of \<open>null\<close> or of \<open>undefined\<close>, and calling \<open>find\<close> on a
  value that is not an array, throw a TypeError (the wording of the message is the
  engine's); the \<open>catch\<close> of the handler receives it. An element that is an object
  without \<open>id\<close>, a string, a number, a boolean or an array has the \<open>id\<close> undefined,
  which is strictly equal to an undefined \<open>tableId\<close> only.
\<close>

fun find_table :: "string option \<Rightarrow> json list \<Rightarrow> string + json option" where
  "find_table tableId [] = Inr None"
| "find_table tableId (t # ts) =
     (case t of
        JNull \<Rightarrow> Inl ''Cannot read properties of null (reading 'id')''
      | JObj kvs \<Rightarrow> if map_of kvs ''id'' = map_option JStr tableId then Inr (Some t)
                    else find_table tableId ts
      | _ \<Rightarrow> if tableId = None then Inr (Some t) else find_table tableId ts)"

definition tables_find :: "json \<Rightarrow> string option \<Rightarrow> string + json option" where
  "tables_find baseSchema tableId =
     (case baseSchema of
        JNull \<Rightarrow> Inl ''Cannot read properties of null (reading 'tables')''
      | JObj kvs \<Rightarrow>
          (case map_of kvs ''tables'' of
             None \<Rightarrow> Inl ''Cannot read properties of undefined (reading 'find')''
           | Some JNull \<Rightarrow> Inl ''Cannot read properties of null (reading 'find')''
           | Some (JArr ts) \<Rightarrow> find_table tableId ts
           | Some _ \<Rightarrow> Inl ''baseSchema.tables.find is not a function'')
      | _ \<Rightarrow> Inl ''Cannot read properties of undefined (reading 'find')'')"

text \<open>\<open>!table\<close> holds of undefined and of the falsy values \<open>false\<close>, \<open>0\<close> and \<open>""\<close>.\<close>

definition truthy :: "json \<Rightarrow> bool" where
  "truthy j =
     (case j of
        JNull \<Rightarrow> False
      | JBool b \<Rightarrow> b
      | JNum r \<Rightarrow> r \<noteq> 0
      | JStr s \<Rightarrow> s \<noteq> []
      | JArr _ \<Rightarrow> True
      | JObj _ \<Rightarrow> True)"

definition not_found_text :: "string \<Rightarrow> string \<Rightarrow> string" where
  "not_found_text tableId baseId =
     ''**Error**'' @ nl @ nl @ ''Table '' @ tableId @ '' not found in base '' @ baseId"

definition describeTable_callback ::
  "AirtableService \<Rightarrow> runtime \<Rightarrow> string option \<times> string option \<Rightarrow> tool_result io" where
  "describeTable_callback airtableService rt = (\<lambda>(baseId, tableId) issued.
     case getBaseSchema rt airtableService (js_string baseId) issued of
       (Inl message, issued') \<Rightarrow> (error_result (error_text ''describe table'' message), issued')
     | (Inr baseSchema, issued') \<Rightarrow>
         (case tables_find baseSchema tableId of
            Inl message \<Rightarrow> (error_result (error_text ''describe table'' message), issued')
          | Inr None \<Rightarrow>
              (error_result (not_found_text (js_string tableId) (js_string baseId)), issued')
          | Inr (Some table) \<Rightarrow>
              if truthy table
              then (success_result
                      (json_block ''Table Details'' (JSON_stringify rt table (Some 2))), issued')
              else (error_result (not_found_text (js_string tableId) (js_string baseId)),
                    issued')))"

definition listRecords_callback ::
  "AirtableService \<Rightarrow> runtime \<Rightarrow> string option \<times> string option \<times> list_options \<Rightarrow> tool_result io" where
  "listRecords_callback airtableService rt =
     (\<lambda>(baseId, tableId, view, maxRecords, sort, filterByFormula).
        respond rt (''Records from '' @ js_string tableId) ''list records''
          (listRecords rt airtableService (js_string baseId) (js_string tableId)
             (view, maxRecords, sort, filterByFormula)))"

definition getRecord_callback ::
  "AirtableService \<Rightarrow> runtime \<Rightarrow> string option \<times> string option \<times> string option \<Rightarrow> tool_result io" where
  "getRecord_callback airtableService rt = (\<lambda>(baseId, tableId, recordId).
     respond rt (''Record '' @ js_string recordId) ''get record''
       (getRecord rt airtableService (js_string baseId) (js_string tableId) (js_string recordId)))"

text \<open>The options object of the search is \<open>{ filterByFormula, maxRecords }\<close>: no view, no sort.\<close>

definition searchRecords_callback ::
  "AirtableService \<Rightarrow> runtime \<Rightarrow> string option \<times> string option \<times> string option \<times> int option \<Rightarrow> tool_result io" where
  "searchRecords_callback airtableService rt = (\<lambda>(baseId, tableId, filterByFormula, maxRecords).
     respond rt ''Search Results'' ''search records''
       (listRecords rt airtableService (js_string baseId) (js_string tableId)
          (None, maxRecords, None, filterByFormula)))"

definition createRecord_callback ::
  "AirtableService \<Rightarrow> runtime \<Rightarrow> string option \<times> string option \<times> (string \<times> json) list option \<Rightarrow> tool_result io" where
  "createRecord_callback airtableService rt = (\<lambda>(baseId, tableId, fields).
     respond rt ''Record Created'' ''create record''
       (createRecord rt airtableService (js_string baseId) (js_string tableId) fields))"

definition updateRecords_callback ::
  "AirtableService \<Rightarrow> runtime \<Rightarrow> string option \<times> string option \<times> update_entry list option \<Rightarrow> tool_result io" where
  "updateRecords_callback airtableService rt = (\<lambda>(baseId, tableId, records).
     respond rt ''Records Updated'' ''update records''
       (updateRecords rt airtableService (js_string baseId) (js_string tableId) records))"

definition deleteRecords_callback ::
  "AirtableService \<Rightarrow> runtime \<Rightarrow> string option \<times> string option \<times> string list option \<Rightarrow> tool_result io" where
  "deleteRecords_callback airtableService rt = (\<lambda>(baseId, tableId, recordIds).
     respond rt ''Records Deleted'' ''delete records''
       (deleteRecords rt airtableService (js_string baseId) (js_string tableId) recordIds))"

text \<open>
  The callbacks of listRecords, searchRecords and deleteRecords on arguments that the
  schema of the tool has validated: every required parameter is defined.
\<close>

definition listRecords_handler ::
  "AirtableService \<Rightarrow> runtime \<Rightarrow> string \<times> string \<times> list_options \<Rightarrow> tool_result io" where
  "listRecords_handler airtableService rt =
     (\<lambda>(baseId, tableId, view, maxRecords, sort, filterByFormula).
        listRecords_callback airtableService rt
          (Some baseId, Some tableId, view, maxRecords, sort, filterByFormula))"

definition searchRecords_handler ::
  "AirtableService \<Rightarrow> runtime \<Rightarrow> string \<times> string \<times> string \<times> int option \<Rightarrow> tool_result io" where
  "searchRecords_handler airtableService rt = (\<lambda>(baseId, tableId, filterByFormula, maxRecords).
     searchRecords_callback airtableService rt
       (Some baseId, Some tableId, Some filterByFormula, maxRecords))"

definition deleteRecords_handler ::
  "AirtableService \<Rightarrow> runtime \<Rightarrow> string \<times> string \<times> string list \<Rightarrow> tool_result io" where
  "deleteRecords_handler airtableService rt = (\<lambda>(baseId, tableId, recordIds).
     deleteRecords_callback airtableService rt (Some baseId, Some tableId, Some recordIds))"

section \<open>The tool registry of the server\<close>

text \<open>
  The server and its registry belong to the MCP SDK, which is not part of the repository.
  The registry maps the name of a tool to its description and to what a call of it does.
\<close>

record registered_tool =
  tool_description :: string
  tool_call :: "runtime \<Rightarrow> tool_result io"

record McpServer =
  server_name :: string
  server_version :: string
  registeredTools :: "(string \<times> registered_tool) list"

datatype call_outcome =
    NotFound string
  | Returned tool_result

text \<open>
  \<open>server.tool(name, description, paramsSchema, callback)\<close> stores the tool under its
  name, after the tools registered before, and throws when the name is taken.
  \<open>McpServer.tool\<close> takes as \<open>paramsSchema\<close> a raw shape, that is, a plain object whose
  values are zod schemas, which it wraps into an object schema itself; any other object in
  that position is taken as the annotations of the tool. Every call site of the repository
  passes a \<open>z.object(...)\<close> instance, which is not a raw shape: the tool is registered
  without input schema, and on a call the SDK validates nothing and invokes the callback
  with the \<open>extra\<close> object of the request as its only argument. That object has no
  property of a name that a callback destructures, so every parameter of the callback is
  undefined. Accordingly \<open>server_tool\<close> takes the schema as the call sites pass it and
  does not apply it, and \<open>callback\<close> stands for the callback of the source applied to
  the \<open>extra\<close> object.
\<close>

definition server_tool ::
  "string \<Rightarrow> string \<Rightarrow> 'a parser \<Rightarrow> (runtime \<Rightarrow> tool_result io) \<Rightarrow> McpServer \<Rightarrow> string + McpServer" where
  "server_tool toolName description paramsSchema callback server =
     (case map_of (registeredTools server) toolName of
        Some _ \<Rightarrow> Inl (''Tool '' @ toolName @ '' is already registered'')
      | None \<Rightarrow>
          Inr (server\<lparr> registeredTools := registeredTools server
                 @ [(toolName, \<lparr> tool_description = description,
                                 tool_call = callback \<rparr>)] \<rparr>))"

text \<open>
  Modelled from the spec: a command for a name that is not in the registry of the session
  fails as not found. The dispatch belongs to the SDK; for a registered tool, which has no
  input schema, it does not look at the raw arguments of the command and runs the callback.
\<close>

definition callTool :: "runtime \<Rightarrow> McpServer \<Rightarrow> string \<Rightarrow> json option \<Rightarrow> call_outcome io" where
  "callTool rt server toolName args issued =
     (case map_of (registeredTools server) toolName of
        None \<Rightarrow> (NotFound (''Tool '' @ toolName @ '' not found''), issued)
      | Some tool \<Rightarrow> (case tool_call tool rt issued of (r, issued') \<Rightarrow> (Returned r, issued')))"

section \<open>registerAirtableTools\<close>

record Env =
  AIRTABLE_API_KEY :: string

record Props =
  login :: string
  name :: string

datatype console_line = Log string | Error string

type_synonym console = "console_line list"

text \<open>
  The allow-list is a constant of the module, which the deployment edits; the repository
  ships it empty. The registration is stated for any allow-list.
\<close>

definition ALLOWED_WRITE_USERNAMES :: "string set" where
  "ALLOWED_WRITE_USERNAMES = {}"

definition register_write_tools :: "AirtableService \<Rightarrow> McpServer \<Rightarrow> string + McpServer" where
  "register_write_tools airtableService server =
     and_then (server_tool ''createRecord'' ''Create a new record in a table''
                 CreateRecordSchema
                 (\<lambda>rt. createRecord_callback airtableService rt (None, None, None))
                 server) (\<lambda>server.
     and_then (server_tool ''updateRecords'' ''Update multiple records in a table''
                 UpdateRecordsSchema
                 (\<lambda>rt. updateRecords_callback airtableService rt (None, None, None))
                 server) (\<lambda>server.
     server_tool ''deleteRecords'' ''Delete multiple records from a table''
       DeleteRecordsSchema
       (\<lambda>rt. deleteRecords_callback airtableService rt (None, None, None))
       server))"

definition register_read_tools :: "AirtableService \<Rightarrow> McpServer \<Rightarrow> string + McpServer" where
  "register_read_tools airtableService server =
     and_then (server_tool ''listBases''
                 ''List all Airtable bases accessible with the provided API key''
                 ListBasesSchema
                 (\<lambda>rt. listBases_handler airtableService rt ())
                 server) (\<lambda>server.
     and_then (server_tool ''listTables'' ''List all tables in a specific Airtable base''
                 ListTablesSchema
                 (\<lambda>rt. listTables_callback airtableService rt None)
                 server) (\<lambda>server.
     and_then (server_tool ''describeTable''
                 ''Get detailed information about a specific table including fields and views''
                 DescribeTableSchema
                 (\<lambda>rt. describeTable_callback airtableService rt (None, None))
                 server) (\<lambda>server.
     and_then (server_tool ''listRecords''
                 ''List records from a specific table with optional filtering and sorting''
                 ListRecordsSchema
                 (\<lambda>rt. listRecords_callback airtableService rt
                         (None, None, None, None, None, None))
                 server) (\<lambda>server.
     and_then (server_tool ''getRecord'' ''Get a specific record by ID''
                 GetRecordSchema
                 (\<lambda>rt. getRecord_callback airtableService rt (None, None, None))
                 server) (\<lambda>server.
     server_tool ''searchRecords'' ''Search records using Airtable formula filtering''
       SearchRecordsSchema
       (\<lambda>rt. searchRecords_callback airtableService rt (None, None, None, None))
       server)))))"

definition registerAirtableTools ::
  "string set \<Rightarrow> McpServer \<Rightarrow> Env \<Rightarrow> Props \<Rightarrow> console \<Rightarrow> string + McpServer \<times> console" where
  "registerAirtableTools allowed server env props out =
     (let airtableService = \<lparr> apiKey = AIRTABLE_API_KEY env \<rparr> in
      and_then (register_read_tools airtableService server) (\<lambda>server.
      and_then (if login props \<in> allowed then register_write_tools airtableService server
                else Inr server) (\<lambda>server.
      Inr (server,
           out @ [Log (''Airtable MCP tools registered for user: '' @ login props
                       @ '' ('' @ name props @ '')''),
                  Log (''Write access: ''
                       @ (if login props \<in> allowed then ''enabled'' else ''disabled''))]))))"

section \<open>The agent of a session\<close>

record AirtableMCP =
  server :: McpServer
  env :: Env
  props :: Props

definition new_server :: McpServer where
  "new_server = \<lparr> server_name = ''Airtable MCP Server'', server_version = ''1.0.0'',
                  registeredTools = [] \<rparr>"

definition init :: "string set \<Rightarrow> AirtableMCP \<Rightarrow> console \<Rightarrow> string + AirtableMCP \<times> console" where
  "init allowed this out =
     and_then (registerAirtableTools allowed (server this) (env this) (props this) out)
       (\<lambda>(server', out'). Inr (this\<lparr> server := server' \<rparr>, out'))"

text \<open>
  \<open>cleanup\<close> logs one line inside a \<open>try\<close>; \<open>console.log\<close> does not throw, so the
  \<open>catch\<close> is not reached. It returns normally (\<open>Inr\<close>) and leaves the agent as it is.
\<close>

definition cleanup :: "AirtableMCP \<Rightarrow> console \<Rightarrow> (string + unit) \<times> AirtableMCP \<times> console" where
  "cleanup this out =
     (Inr (), this, out @ [Log ''Airtable MCP server cleanup completed successfully''])"

definition alarm :: "AirtableMCP \<Rightarrow> console \<Rightarrow> (string + unit) \<times> AirtableMCP \<times> console" where
  "alarm this out = cleanup this out"

text \<open>The agent of a new session: a fresh server, nothing registered yet.\<close>

definition new_agent :: "Env \<Rightarrow> Props \<Rightarrow> AirtableMCP" where
  "new_agent e p = \<lparr> server = new_server, env = e, props = p \<rparr>"

section \<open>The operations and the permission gate\<close>

text \<open>
  The source marks the six reading tools as available to all authenticated users and the
  three writing tools as only for privileged users. An operation is permitted in a session
  iff its name is in the registry of the session's server.
\<close>

definition READ_OPERATIONS :: "string list" where
  "READ_OPERATIONS =
     [''listBases'', ''listTables'', ''describeTable'', ''listRecords'', ''getRecord'',
      ''searchRecords'']"

definition WRITE_OPERATIONS :: "string list" where
  "WRITE_OPERATIONS = [''createRecord'', ''updateRecords'', ''deleteRecords'']"

definition isPermitted :: "McpServer \<Rightarrow> string \<Rightarrow> bool" where
  "isPermitted srv operationName = (map_of (registeredTools srv) operationName \<noteq> None)"

text \<open>What the registrations store, in their order.\<close>

definition read_registry :: "AirtableService \<Rightarrow> (string \<times> registered_tool) list" where
  "read_registry svc =
     [(''listBases'',
       \<lparr> tool_description = ''List all Airtable bases accessible with the provided API key'',
         tool_call = (\<lambda>rt. listBases_handler svc rt ()) \<rparr>),
      (''listTables'',
       \<lparr> tool_description = ''List all tables in a specific Airtable base'',
         tool_call = (\<lambda>rt. listTables_callback svc rt None) \<rparr>),
      (''describeTable'',
       \<lparr> tool_description =
           ''Get detailed information about a specific table including fields and views'',
         tool_call = (\<lambda>rt. describeTable_callback svc rt (None, None)) \<rparr>),
      (''listRecords'',
       \<lparr> tool_description =
           ''List records from a specific table with optional filtering and sorting'',
         tool_call = (\<lambda>rt. listRecords_callback svc rt (None, None, None, None, None, None)) \<rparr>),
      (''getRecord'',
       \<lparr> tool_description = ''Get a specific record by ID'',
         tool_call = (\<lambda>rt. getRecord_callback svc rt (None, None, None)) \<rparr>),
      (''searchRecords'',
       \<lparr> tool_description = ''Search records using Airtable formula filtering'',
         tool_call = (\<lambda>rt. searchRecords_callback svc rt (None, None, None, None)) \<rparr>)]"

definition write_registry :: "AirtableService \<Rightarrow> (string \<times> registered_tool) list" where
  "write_registry svc =
     [(''createRecord'',
       \<lparr> tool_description = ''Create a new record in a table'',
         tool_call = (\<lambda>rt. createRecord_callback svc rt (None, None, None)) \<rparr>),
      (''updateRecords'',
       \<lparr> tool_description = ''Update multiple records in a table'',
         tool_call = (\<lambda>rt. updateRecords_callback svc rt (None, None, None)) \<rparr>),
      (''deleteRecords'',
       \<lparr> tool_description = ''Delete multiple records from a table'',
         tool_call = (\<lambda>rt. deleteRecords_callback svc rt (None, None, None)) \<rparr>)]"

section \<open>The result object and the envelope of the specification\<close>




section \<open>Concrete inputs\<close>

text \<open>
  A provider that answers every request with the same response, a session for the login
  \<open>bob\<close>, and arguments naming the base \<open>app1\<close> and the table \<open>tbl1\<close>; the
  properties below are evaluated on them.
\<close>

definition sample_runtime :: "response \<Rightarrow> runtime" where
  "sample_runtime resp = \<lparr> fetch = (\<lambda>req. Inr resp), JSON_stringify = (\<lambda>j indent. ''{}'') \<rparr>"

definition sample_response :: "json \<Rightarrow> response" where
  "sample_response j = \<lparr> resp_ok = True, resp_status = 200, resp_statusText = ''OK'',
                         resp_text = ''{}'', resp_json = Inr j \<rparr>"

definition sample_env :: Env where
  "sample_env = \<lparr> AIRTABLE_API_KEY = ''key'' \<rparr>"

definition bob :: Props where
  "bob = \<lparr> login = ''bob'', name = ''Bob'' \<rparr>"

definition sample_args :: "string \<Rightarrow> json \<Rightarrow> (string \<times> json) list" where
  "sample_args k v = [(''baseId'', JStr ''app1''), (''tableId'', JStr ''tbl1''), (k, v)]"

definition sample_entry :: json where
  "sample_entry = JObj [(''id'', JStr ''rec1''), (''fields'', JObj [(''Name'', JStr ''x'')])]"

text \<open>
  The outcomes of a deletion of three records, of which the provider performed two; a
  platform with a given provider and a serialisation that tells a few values apart; a
  response with a non-success status; and the arguments of a search.
\<close>

definition sample_outcomes :: json where
  "sample_outcomes = JObj [(''records'',
     JArr [JObj [(''id'', JStr ''rec1''), (''deleted'', JBool True)],
           JObj [(''id'', JStr ''rec2''), (''deleted'', JBool True)],
           JObj [(''id'', JStr ''rec3''), (''deleted'', JBool False)]])]"

definition describe_json :: "json \<Rightarrow> nat option \<Rightarrow> string" where
  "describe_json j indent =
     (if j = sample_outcomes then ''<the three outcomes>''
      else case j of JNull \<Rightarrow> ''null'' | JStr s \<Rightarrow> s | JObj [] \<Rightarrow> ''{}''
                  | _ \<Rightarrow> ''<json>'')"

definition test_runtime :: "(request \<Rightarrow> string + response) \<Rightarrow> runtime" where
  "test_runtime answer = \<lparr> fetch = answer, JSON_stringify = describe_json \<rparr>"


definition search_args :: "(string \<times> json) list" where
  "search_args = [(''baseId'', JStr ''app1''), (''tableId'', JStr ''tbl1''),
                  (''filterByFormula'', JStr ''{Status}=1''), (''maxRecords'', JNum 5)]"


section \<open>The callbacks on validated arguments\<close>

lemma js_string_Some: "js_string (Some s) = s"
  by (simp add: js_string_def)

lemma listRecords_handler_unfold:
  "listRecords_handler svc rt (baseId, tableId, options)
     = respond rt (''Records from '' @ tableId) ''list records''
         (listRecords rt svc baseId tableId options)"
  by (cases options) (simp add: listRecords_handler_def listRecords_callback_def js_string_Some)

lemma searchRecords_handler_unfold:
  "searchRecords_handler svc rt (baseId, tableId, filterByFormula, maxRecords)
     = respond rt ''Search Results'' ''search records''
         (listRecords rt svc baseId tableId (None, maxRecords, None, Some filterByFormula))"
  by (simp add: searchRecords_handler_def searchRecords_callback_def js_string_Some)

lemma deleteRecords_handler_unfold:
  "deleteRecords_handler svc rt (baseId, tableId, recordIds)
     = respond rt ''Records Deleted'' ''delete records''
         (deleteRecords rt svc baseId tableId (Some recordIds))"
  by (simp add: deleteRecords_handler_def deleteRecords_callback_def js_string_Some)

section \<open>The registry of a session\<close>

lemma register_read_tools_new:
  "register_read_tools svc new_server = Inr (new_server\<lparr> registeredTools := read_registry svc \<rparr>)"
  by (simp add: register_read_tools_def server_tool_def and_then_def new_server_def
      read_registry_def)

lemma register_write_tools_after_read:
  "register_write_tools svc (new_server\<lparr> registeredTools := read_registry svc \<rparr>) =
     Inr (new_server\<lparr> registeredTools := read_registry svc @ write_registry svc \<rparr>)"
  by (simp add: register_write_tools_def server_tool_def and_then_def new_server_def
      read_registry_def write_registry_def)

lemma init_new_agent:
  "\<exists>out'. init allowed (new_agent e p) out =
     Inr (\<lparr> server = new_server\<lparr> registeredTools :=
                 read_registry \<lparr> apiKey = AIRTABLE_API_KEY e \<rparr>
                 @ (if login p \<in> allowed then write_registry \<lparr> apiKey = AIRTABLE_API_KEY e \<rparr>
                    else []) \<rparr>,
             env = e, props = p \<rparr>, out')"
  by (simp add: init_def registerAirtableTools_def new_agent_def register_read_tools_new
      register_write_tools_after_read and_then_def Let_def)

lemma read_registry_names: "fst ` set (read_registry svc) = set READ_OPERATIONS"
  by (simp add: read_registry_def READ_OPERATIONS_def)

lemma write_registry_names: "fst ` set (write_registry svc) = set WRITE_OPERATIONS"
  by (simp add: write_registry_def WRITE_OPERATIONS_def)

lemma isPermitted_after_init:
  "isPermitted (new_server\<lparr> registeredTools :=
                  read_registry svc @ (if b then write_registry svc else []) \<rparr>) n
   = (n \<in> set READ_OPERATIONS \<or> (b \<and> n \<in> set WRITE_OPERATIONS))"
  by (cases b) (simp_all add: isPermitted_def map_of_eq_None_iff new_server_def image_Un
      read_registry_names write_registry_names del: map_of_append)

text \<open>
  C1. In the session that \<open>init\<close> establishes for an identity, each writing operation
  (createRecord, updateRecords, deleteRecords) is in the registry iff the login is in the
  allow-list at that time, and each reading operation is in the registry whatever the
  login. The registration itself does not fail.
\<close>

theorem write_tools_registered_iff_allowed:
  "\<exists>this' out'. init allowed (new_agent e p) out = Inr (this', out')
     \<and> (\<forall>w \<in> set WRITE_OPERATIONS. isPermitted (server this') w = (login p \<in> allowed))
     \<and> (\<forall>r \<in> set READ_OPERATIONS. isPermitted (server this') r)"
proof -
  obtain out' where i: "init allowed (new_agent e p) out =
     Inr (\<lparr> server = new_server\<lparr> registeredTools :=
                 read_registry \<lparr> apiKey = AIRTABLE_API_KEY e \<rparr>
                 @ (if login p \<in> allowed then write_registry \<lparr> apiKey = AIRTABLE_API_KEY e \<rparr>
                    else []) \<rparr>,
             env = e, props = p \<rparr>, out')"
    using init_new_agent by blast
  have w: "\<forall>w \<in> set WRITE_OPERATIONS. w \<notin> set READ_OPERATIONS"
    by (simp add: READ_OPERATIONS_def WRITE_OPERATIONS_def)
  show ?thesis
    using w by (simp add: i isPermitted_after_init)
qed

theorem write_tools_registered_iff_allowed_witness:
  "(\<exists>this' out'. init {''bob''} (new_agent sample_env bob) [] = Inr (this', out')
     \<and> isPermitted (server this') ''createRecord'' \<and> isPermitted (server this') ''updateRecords''
     \<and> isPermitted (server this') ''deleteRecords'' \<and> isPermitted (server this') ''listBases'')
   \<and> (\<exists>this' out'. init {''bob''} (new_agent sample_env \<lparr> login = ''alice'', name = ''Alice'' \<rparr>) []
                       = Inr (this', out')
     \<and> \<not> isPermitted (server this') ''createRecord''
     \<and> \<not> isPermitted (server this') ''updateRecords''
     \<and> \<not> isPermitted (server this') ''deleteRecords'' \<and> isPermitted (server this') ''listBases'')
   \<and> (\<exists>this' out'. init ALLOWED_WRITE_USERNAMES (new_agent sample_env bob) [] = Inr (this', out')
     \<and> \<not> isPermitted (server this') ''createRecord''
     \<and> \<not> isPermitted (server this') ''updateRecords''
     \<and> \<not> isPermitted (server this') ''deleteRecords'' \<and> isPermitted (server this') ''listBases'')"
  using write_tools_registered_iff_allowed
          [of "{''bob''}" sample_env bob "[]"]
        write_tools_registered_iff_allowed
          [of "{''bob''}" sample_env "\<lparr> login = ''alice'', name = ''Alice'' \<rparr>" "[]"]
        write_tools_registered_iff_allowed
          [of ALLOWED_WRITE_USERNAMES sample_env bob "[]"]
  by (simp add: READ_OPERATIONS_def WRITE_OPERATIONS_def ALLOWED_WRITE_USERNAMES_def bob_def)
     blast

section \<open>Validation of the arguments\<close>

lemma session_registry:
  assumes "init allowed (new_agent e p) out = Inr (this', out')"
  shows "registeredTools (server this') =
           read_registry \<lparr> apiKey = AIRTABLE_API_KEY e \<rparr>
           @ (if login p \<in> allowed then write_registry \<lparr> apiKey = AIRTABLE_API_KEY e \<rparr> else [])"
  using assms init_new_agent [of allowed e p out] by (auto simp add: new_server_def)

lemma z_elements_length: "z_elements p xs = Inr ys \<Longrightarrow> length ys = length xs"
  by (induction xs arbitrary: ys) (auto simp add: and_then_def split: sum.splits)

lemma batch_rejected:
  assumes "length xs = 0 \<or> 10 < length xs"
  shows "\<exists>issue. z_max 10 m1 (z_min 1 m2 (z_array p)) (Some (JArr xs)) = Inl issue"
proof (cases "z_elements p xs")
  case (Inl a)
  then show ?thesis by (simp add: z_max_def z_min_def z_array_def and_then_def)
next
  case (Inr ys)
  then have "length ys = length xs" by (rule z_elements_length)
  with Inr assms show ?thesis by (auto simp add: z_max_def z_min_def z_array_def and_then_def)
qed

lemma batch_accepted:
  assumes "1 \<le> length xs" "length xs \<le> 10"
  shows "z_max 10 m1 (z_min 1 m2 (z_array p)) (Some (JArr xs)) = z_elements p xs"
proof (cases "z_elements p xs")
  case (Inl a)
  then show ?thesis by (simp add: z_max_def z_min_def z_array_def and_then_def)
next
  case (Inr ys)
  then have "length ys = length xs" by (rule z_elements_length)
  with Inr assms show ?thesis by (simp add: z_max_def z_min_def z_array_def and_then_def)
qed

lemma string_id_field:
  "z_min (Suc 0) msg z_string (Some (JStr s)) = (if s = [] then Inl msg else Inr s)"
  by (cases s) (simp_all add: z_min_def z_string_def and_then_def)

lemma UpdateRecordsSchema_rejects:
  assumes "map_of kvs ''records'' = Some (JArr xs)" "length xs = 0 \<or> 10 < length xs"
  shows "\<exists>issue. UpdateRecordsSchema (Some (JObj kvs)) = Inl issue"
proof -
  obtain issue where "z_max 10 ''Maximum 10 records allowed''
              (z_min 1 ''At least one record is required'' (z_array UpdateEntrySchema)) (Some (JArr xs)) = Inl issue"
    using batch_rejected [OF assms(2)] by blast
  then show ?thesis
    using assms(1) by (simp add: UpdateRecordsSchema_def z_object_def and_then_def split: sum.splits)
qed

lemma DeleteRecordsSchema_rejects:
  assumes "map_of kvs ''recordIds'' = Some (JArr xs)" "length xs = 0 \<or> 10 < length xs"
  shows "\<exists>issue. DeleteRecordsSchema (Some (JObj kvs)) = Inl issue"
proof -
  obtain issue where "z_max 10 ''Maximum 10 record IDs allowed''
              (z_min 1 ''At least one record ID is required'' (z_array z_string)) (Some (JArr xs)) = Inl issue"
    using batch_rejected [OF assms(2)] by blast
  then show ?thesis
    using assms(1) by (simp add: DeleteRecordsSchema_def z_object_def and_then_def split: sum.splits)
qed

lemma UpdateRecordsSchema_accepts:
  assumes "map_of kvs ''baseId'' = Some (JStr b)" "b \<noteq> []"
    and "map_of kvs ''tableId'' = Some (JStr t)" "t \<noteq> []"
    and "map_of kvs ''records'' = Some (JArr xs)" "z_elements UpdateEntrySchema xs = Inr es"
    and "1 \<le> length xs" "length xs \<le> 10"
  shows "UpdateRecordsSchema (Some (JObj kvs)) = Inr (b, t, es)"
  using batch_accepted [OF assms(7,8), of "''Maximum 10 records allowed''" "''At least one record is required''" UpdateEntrySchema]
  by (simp add: UpdateRecordsSchema_def z_object_def string_id_field and_then_def assms)

lemma DeleteRecordsSchema_accepts:
  assumes "map_of kvs ''baseId'' = Some (JStr b)" "b \<noteq> []"
    and "map_of kvs ''tableId'' = Some (JStr t)" "t \<noteq> []"
    and "map_of kvs ''recordIds'' = Some (JArr xs)" "z_elements z_string xs = Inr ids"
    and "1 \<le> length xs" "length xs \<le> 10"
  shows "DeleteRecordsSchema (Some (JObj kvs)) = Inr (b, t, ids)"
  using batch_accepted [OF assms(7,8), of "''Maximum 10 record IDs allowed''" "''At least one record ID is required''" z_string]
  by (simp add: DeleteRecordsSchema_def z_object_def string_id_field and_then_def assms)

lemma z_int_number:
  "z_int z_number (Some (JNum r))
     = (if r \<in> \<int> then Inr \<lfloor>r\<rfloor> else Inl ''Expected integer, received float'')"
proof (cases "r \<in> \<int>")
  case True
  then obtain i where "r = of_int i" by (auto elim: Ints_cases)
  then have "of_int \<lfloor>r\<rfloor> = r" by simp
  with True show ?thesis
    unfolding z_int_def z_number_def and_then_def by simp
next
  case False
  have "of_int \<lfloor>r\<rfloor> \<noteq> r"
  proof
    assume "of_int \<lfloor>r\<rfloor> = r"
    then have "r \<in> \<int>" by (metis Ints_of_int)
    with False show False by simp
  qed
  with False show ?thesis
    unfolding z_int_def z_number_def and_then_def by simp
qed

lemma maxRecords_rejected:
  assumes "100 < r \<or> r \<le> 0 \<or> r \<notin> \<int>"
  shows "\<exists>issue. z_optional (z_max_num 100 (z_positive (z_int z_number))) (Some (JNum r)) = Inl issue"
proof (cases "r \<in> \<int>")
  case True
  then obtain i where r: "r = of_int i" by (auto elim: Ints_cases)
  with assms have "100 < i \<or> i \<le> 0" by auto
  then show ?thesis
    by (auto simp add: r z_optional_def z_max_num_def z_positive_def z_int_number and_then_def)
next
  case False
  then show ?thesis
    by (simp add: z_optional_def z_max_num_def z_positive_def z_int_number and_then_def)
qed

lemma maxRecords_accepted:
  assumes "1 \<le> i" "i \<le> 100"
  shows "z_optional (z_max_num 100 (z_positive (z_int z_number))) (Some (JNum (of_int i))) = Inr (Some i)"
  using assms
  by (simp add: z_optional_def z_max_num_def z_positive_def z_int_number and_then_def)

lemma maxRecords_absent:
  "z_optional (z_max_num 100 (z_positive (z_int z_number))) None = Inr None"
  by (simp add: z_optional_def)

lemma ListRecordsSchema_rejects:
  assumes "map_of kvs ''maxRecords'' = Some (JNum r)" "100 < r \<or> r \<le> 0 \<or> r \<notin> \<int>"
  shows "\<exists>issue. ListRecordsSchema (Some (JObj kvs)) = Inl issue"
proof -
  obtain issue where "z_optional (z_max_num 100 (z_positive (z_int z_number))) (Some (JNum r)) = Inl issue"
    using maxRecords_rejected [OF assms(2)] by blast
  then show ?thesis
    using assms(1) by (simp add: ListRecordsSchema_def z_object_def and_then_def split: sum.splits)
qed

lemma SearchRecordsSchema_rejects:
  assumes "map_of kvs ''maxRecords'' = Some (JNum r)" "100 < r \<or> r \<le> 0 \<or> r \<notin> \<int>"
  shows "\<exists>issue. SearchRecordsSchema (Some (JObj kvs)) = Inl issue"
proof -
  obtain issue where "z_optional (z_max_num 100 (z_positive (z_int z_number))) (Some (JNum r)) = Inl issue"
    using maxRecords_rejected [OF assms(2)] by blast
  then show ?thesis
    using assms(1) by (simp add: SearchRecordsSchema_def z_object_def and_then_def split: sum.splits)
qed

lemma ListRecordsSchema_accepts:
  assumes "map_of kvs ''baseId'' = Some (JStr b)" "b \<noteq> []"
    and "map_of kvs ''tableId'' = Some (JStr t)" "t \<noteq> []"
    and "z_optional z_string (map_of kvs ''view'') = Inr view"
    and "z_optional (z_max_num 100 (z_positive (z_int z_number))) (map_of kvs ''maxRecords'') = Inr m"
    and "z_optional (z_array SortItemSchema) (map_of kvs ''sort'') = Inr sorting"
    and "z_optional z_string (map_of kvs ''filterByFormula'') = Inr f"
  shows "ListRecordsSchema (Some (JObj kvs)) = Inr (b, t, view, m, sorting, f)"
  by (simp add: ListRecordsSchema_def z_object_def string_id_field and_then_def assms)

lemma SearchRecordsSchema_accepts:
  assumes "map_of kvs ''baseId'' = Some (JStr b)" "b \<noteq> []"
    and "map_of kvs ''tableId'' = Some (JStr t)" "t \<noteq> []"
    and "map_of kvs ''filterByFormula'' = Some (JStr q)" "q \<noteq> []"
    and "z_optional (z_max_num 100 (z_positive (z_int z_number))) (map_of kvs ''maxRecords'') = Inr m"
  shows "SearchRecordsSchema (Some (JObj kvs)) = Inr (b, t, q, m)"
  by (simp add: SearchRecordsSchema_def z_object_def string_id_field and_then_def assms)

lemma session_tool_call:
  assumes "init {''bob''} (new_agent sample_env bob) [] = Inr (this', out')"
  shows "map_of (registeredTools (server this')) ''updateRecords''
           = Some \<lparr> tool_description = ''Update multiple records in a table'',
                    tool_call = (\<lambda>rt. updateRecords_callback \<lparr> apiKey = ''key'' \<rparr> rt
                                          (None, None, None)) \<rparr>"
    and "map_of (registeredTools (server this')) ''deleteRecords''
           = Some \<lparr> tool_description = ''Delete multiple records from a table'',
                    tool_call = (\<lambda>rt. deleteRecords_callback \<lparr> apiKey = ''key'' \<rparr> rt
                                          (None, None, None)) \<rparr>"
    and "map_of (registeredTools (server this')) ''listRecords''
           = Some \<lparr> tool_description =
                      ''List records from a specific table with optional filtering and sorting'',
                    tool_call = (\<lambda>rt. listRecords_callback \<lparr> apiKey = ''key'' \<rparr> rt
                                          (None, None, None, None, None, None)) \<rparr>"
    and "map_of (registeredTools (server this')) ''searchRecords''
           = Some \<lparr> tool_description = ''Search records using Airtable formula filtering'',
                    tool_call = (\<lambda>rt. searchRecords_callback \<lparr> apiKey = ''key'' \<rparr> rt
                                          (None, None, None, None)) \<rparr>"
  by (simp_all add: session_registry [OF assms] read_registry_def write_registry_def
      sample_env_def bob_def)

text \<open>
  C2. The schema of updateRecords rejects a batch of eleven entries, but the schema is not
  applied when the tool is called: for a login on the allow-list the call returns a
  success item and a PATCH request is issued, to the path of an undefined base and table
  and with the empty object as body. A call of deleteRecords, whatever its batch, ends in
  the TypeError of \<open>forEach\<close> on an undefined value, with no request.
\<close>

theorem oversized_batch_is_not_rejected:
  "\<exists>this' out'. init {''bob''} (new_agent sample_env bob) [] = Inr (this', out')
     \<and> (\<exists>issue. UpdateRecordsSchema
                    (Some (JObj (sample_args ''records'' (JArr (replicate 11 sample_entry)))))
                  = Inl issue)
     \<and> callTool (test_runtime (\<lambda>req. Inr (sample_response JNull))) (server this')
          ''updateRecords''
          (Some (JObj (sample_args ''records'' (JArr (replicate 11 sample_entry))))) []
        = (Returned \<lparr> content = [\<lparr> item_type = ''text'',
               item_text = ''**Records Updated**'' @ nl @ nl @ ''```json'' @ nl @ ''null''
                           @ nl @ ''```'',
               isError = None \<rparr>] \<rparr>,
           [\<lparr> url = ''https://api.airtable.com/v0/undefined/undefined'',
              method = Some ''PATCH'',
              headers = [(''Authorization'', ''Bearer key''),
                         (''Content-Type'', ''application/json'')],
              body = Some ''{}'' \<rparr>])
     \<and> callTool (test_runtime (\<lambda>req. Inr (sample_response JNull))) (server this')
          ''deleteRecords''
          (Some (JObj (sample_args ''recordIds'' (JArr [JStr ''rec1''])))) []
        = (Returned \<lparr> content = [\<lparr> item_type = ''text'',
               item_text = ''**Error**'' @ nl @ nl @ ''Failed to delete records: ''
                           @ ''Cannot read properties of undefined (reading 'forEach')'',
               isError = Some True \<rparr>] \<rparr>,
           [])"
proof -
  obtain this' out' where s: "init {''bob''} (new_agent sample_env bob) [] = Inr (this', out')"
    using init_new_agent by blast
  have 1: "\<exists>issue. UpdateRecordsSchema
                    (Some (JObj (sample_args ''records'' (JArr (replicate 11 sample_entry)))))
                  = Inl issue"
    by (rule UpdateRecordsSchema_rejects [where xs = "replicate 11 sample_entry"])
       (simp_all add: sample_args_def)
  have 2: "callTool (test_runtime (\<lambda>req. Inr (sample_response JNull))) (server this')
          ''updateRecords''
          (Some (JObj (sample_args ''records'' (JArr (replicate 11 sample_entry))))) []
        = (Returned \<lparr> content = [\<lparr> item_type = ''text'',
               item_text = ''**Records Updated**'' @ nl @ nl @ ''```json'' @ nl @ ''null''
                           @ nl @ ''```'',
               isError = None \<rparr>] \<rparr>,
           [\<lparr> url = ''https://api.airtable.com/v0/undefined/undefined'',
              method = Some ''PATCH'',
              headers = [(''Authorization'', ''Bearer key''),
                         (''Content-Type'', ''application/json'')],
              body = Some ''{}'' \<rparr>])"
    by (simp add: callTool_def session_tool_call(1) [OF s] updateRecords_callback_def
        respond_def updateRecords_def makeRequest_def js_string_def test_runtime_def
        describe_json_def sample_response_def sample_outcomes_def baseUrl_def success_result_def
        json_block_def Let_def)
  have 3: "callTool (test_runtime (\<lambda>req. Inr (sample_response JNull))) (server this')
          ''deleteRecords''
          (Some (JObj (sample_args ''recordIds'' (JArr [JStr ''rec1''])))) []
        = (Returned \<lparr> content = [\<lparr> item_type = ''text'',
               item_text = ''**Error**'' @ nl @ nl @ ''Failed to delete records: ''
                           @ ''Cannot read properties of undefined (reading 'forEach')'',
               isError = Some True \<rparr>] \<rparr>,
           [])"
    by (simp add: callTool_def session_tool_call(2) [OF s] deleteRecords_callback_def
        respond_def deleteRecords_def error_result_def error_text_def)
  from s 1 2 3 show ?thesis by blast
qed

text \<open>
  C7. The schemas of listRecords and searchRecords reject a \<open>maxRecords\<close> of 101 and
  of 0, but the schemas are not applied when the tools are called: each call returns a
  success item and a GET request is issued, to the path of an undefined base and table
  and without any parameter.
\<close>

theorem maxRecords_is_not_checked:
  "\<exists>this' out'. init {''bob''} (new_agent sample_env bob) [] = Inr (this', out')
     \<and> (\<exists>issue. ListRecordsSchema (Some (JObj (sample_args ''maxRecords'' (JNum 101))))
                  = Inl issue)
     \<and> callTool (test_runtime (\<lambda>req. Inr (sample_response JNull))) (server this')
          ''listRecords'' (Some (JObj (sample_args ''maxRecords'' (JNum 101)))) []
        = (Returned \<lparr> content = [\<lparr> item_type = ''text'',
               item_text = ''**Records from undefined**'' @ nl @ nl @ ''```json'' @ nl
                           @ ''null'' @ nl @ ''```'',
               isError = None \<rparr>] \<rparr>,
           [\<lparr> url = ''https://api.airtable.com/v0/undefined/undefined'', method = None,
              headers = [(''Authorization'', ''Bearer key''),
                         (''Content-Type'', ''application/json'')],
              body = None \<rparr>])
     \<and> (\<exists>issue. SearchRecordsSchema (Some (JObj (sample_args ''maxRecords'' (JNum 0))))
                  = Inl issue)
     \<and> callTool (test_runtime (\<lambda>req. Inr (sample_response JNull))) (server this')
          ''searchRecords'' (Some (JObj (sample_args ''maxRecords'' (JNum 0)))) []
        = (Returned \<lparr> content = [\<lparr> item_type = ''text'',
               item_text = ''**Search Results**'' @ nl @ nl @ ''```json'' @ nl
                           @ ''null'' @ nl @ ''```'',
               isError = None \<rparr>] \<rparr>,
           [\<lparr> url = ''https://api.airtable.com/v0/undefined/undefined'', method = None,
              headers = [(''Authorization'', ''Bearer key''),
                         (''Content-Type'', ''application/json'')],
              body = None \<rparr>])"
proof -
  obtain this' out' where s: "init {''bob''} (new_agent sample_env bob) [] = Inr (this', out')"
    using init_new_agent by blast
  have 1: "\<exists>issue. ListRecordsSchema (Some (JObj (sample_args ''maxRecords'' (JNum 101))))
                  = Inl issue"
    by (rule ListRecordsSchema_rejects [where r = 101]) (simp_all add: sample_args_def)
  have 2: "callTool (test_runtime (\<lambda>req. Inr (sample_response JNull))) (server this')
          ''listRecords'' (Some (JObj (sample_args ''maxRecords'' (JNum 101)))) []
        = (Returned \<lparr> content = [\<lparr> item_type = ''text'',
               item_text = ''**Records from undefined**'' @ nl @ nl @ ''```json'' @ nl
                           @ ''null'' @ nl @ ''```'',
               isError = None \<rparr>] \<rparr>,
           [\<lparr> url = ''https://api.airtable.com/v0/undefined/undefined'', method = None,
              headers = [(''Authorization'', ''Bearer key''),
                         (''Content-Type'', ''application/json'')],
              body = None \<rparr>])"
    by (simp add: callTool_def session_tool_call(3) [OF s] listRecords_callback_def
        respond_def listRecords_def listRecords_params_def URLSearchParams_toString_def
        makeRequest_def js_string_def test_runtime_def
        describe_json_def sample_response_def sample_outcomes_def baseUrl_def success_result_def
        json_block_def Let_def)
  have 3: "\<exists>issue. SearchRecordsSchema (Some (JObj (sample_args ''maxRecords'' (JNum 0))))
                  = Inl issue"
    by (rule SearchRecordsSchema_rejects [where r = 0]) (simp_all add: sample_args_def)
  have 4: "callTool (test_runtime (\<lambda>req. Inr (sample_response JNull))) (server this')
          ''searchRecords'' (Some (JObj (sample_args ''maxRecords'' (JNum 0)))) []
        = (Returned \<lparr> content = [\<lparr> item_type = ''text'',
               item_text = ''**Search Results**'' @ nl @ nl @ ''```json'' @ nl
                           @ ''null'' @ nl @ ''```'',
               isError = None \<rparr>] \<rparr>,
           [\<lparr> url = ''https://api.airtable.com/v0/undefined/undefined'', method = None,
              headers = [(''Authorization'', ''Bearer key''),
                         (''Content-Type'', ''application/json'')],
              body = None \<rparr>])"
    by (simp add: callTool_def session_tool_call(4) [OF s] searchRecords_callback_def
        respond_def listRecords_def listRecords_params_def URLSearchParams_toString_def
        makeRequest_def js_string_def test_runtime_def
        describe_json_def sample_response_def sample_outcomes_def baseUrl_def success_result_def
        json_block_def Let_def)
  from s 1 2 3 4 show ?thesis by blast
qed

text \<open>
  C5. The record ids of a batch are not checked for emptiness: \<open>deleteRecords\<close> with
  the single record id \<open>""\<close> passes validation and issues the DELETE request with an empty
  \<open>records[]\<close> parameter, and an \<open>updateRecords\<close> entry with the id \<open>""\<close> passes
  too, whereas \<open>getRecord\<close> rejects the empty record id.
\<close>

theorem empty_record_id_passes_validation:
  "DeleteRecordsSchema (Some (JObj (sample_args ''recordIds'' (JArr [JStr '''']))))
     = Inr (''app1'', ''tbl1'', [''''])
   \<and> snd (deleteRecords_handler \<lparr> apiKey = ''key'' \<rparr> (sample_runtime (sample_response JNull))
            (''app1'', ''tbl1'', ['''']) [])
     = [\<lparr> url = ''https://api.airtable.com/v0/app1/tbl1?records%5B%5D='',
          method = Some ''DELETE'',
          headers = [(''Authorization'', ''Bearer key''), (''Content-Type'', ''application/json'')],
          body = None \<rparr>]
   \<and> UpdateRecordsSchema
       (Some (JObj (sample_args ''records'' (JArr [JObj [(''id'', JStr ''''), (''fields'', JObj [])]]))))
     = Inr (''app1'', ''tbl1'', [('''', [])])
   \<and> GetRecordSchema (Some (JObj (sample_args ''recordId'' (JStr ''''))))
     = Inl ''Record ID is required''"
  by (simp add: DeleteRecordsSchema_def UpdateRecordsSchema_def UpdateEntrySchema_def
      GetRecordSchema_def sample_args_def z_object_def z_max_def z_min_def z_array_def
      z_string_def z_record_any_def and_then_def
      deleteRecords_handler_unfold respond_def deleteRecords_def makeRequest_def
      sample_runtime_def sample_response_def baseUrl_def URLSearchParams_toString_def
      form_encode_def form_encode_byte_def hex_digit_def Let_def)

text \<open>
  C6. When the provider answers with a non-success status, the text of the failure result
  ends with the whole body of the response, whatever its length and content.
\<close>

theorem provider_error_embeds_whole_body:
  "fst (listBases_handler svc
          \<lparr> fetch = (\<lambda>req. Inr \<lparr> resp_ok = False, resp_status = 422,
                                 resp_statusText = ''Unprocessable Entity'',
                                 resp_text = upstream, resp_json = Inl ''not JSON'' \<rparr>),
            JSON_stringify = js \<rparr> () issued)
   = error_result (''**Error**'' @ nl @ nl @ ''Failed to list bases: ''
                   @ ''Airtable API error: 422 Unprocessable Entity - '' @ upstream)"
  by (simp add: listBases_handler_def respond_def listBases_def makeRequest_def
      error_text_def nat_toString.simps decimal_digit_def Let_def)

text \<open>
  C9. \<open>cleanup\<close> returns normally and leaves the agent unchanged, so a second teardown,
  reached by \<open>cleanup\<close> or by \<open>alarm\<close>, returns normally too and gives the same agent as
  the first.
\<close>

theorem cleanup_idempotent:
  "(case cleanup this out of (r1, this1, out1) \<Rightarrow>
      (case cleanup this1 out1 of (r2, this2, out2) \<Rightarrow>
         r1 = Inr () \<and> r2 = Inr () \<and> this1 = this \<and> this2 = this1))
   \<and> (case alarm this out of (r1, this1, out1) \<Rightarrow>
      (case cleanup this1 out1 of (r2, this2, out2) \<Rightarrow>
         r1 = Inr () \<and> r2 = Inr () \<and> this1 = this \<and> this2 = this1))
   \<and> (case cleanup this out of (r1, this1, out1) \<Rightarrow>
      (case alarm this1 out1 of (r2, this2, out2) \<Rightarrow>
         r1 = Inr () \<and> r2 = Inr () \<and> this1 = this \<and> this2 = this1))"
  by (simp add: cleanup_def alarm_def)

section \<open>What the provider returns is passed through\<close>





lemma respond_failure:
  assumes "call issued = (Inl message, issued')"
  shows "respond rt title what call issued = (error_result (error_text what message), issued')"
  using assms by (simp add: respond_def)





section \<open>The shape of the results\<close>



section \<open>Sorting without a direction\<close>
















section \<open>Searching and listing\<close>

lemma required_string_as_optional:
  assumes "z_min (Suc 0) msg z_string v = Inr s"
  shows "z_optional z_string v = Inr (Some s)"
  using assms
  by (cases v) (auto simp add: z_min_def z_optional_def z_string_def and_then_def
      split: sum.splits if_splits)

lemma search_arguments_valid_for_list:
  assumes "SearchRecordsSchema (Some (JObj kvs)) = Inr (b, t, f, m)"
    and "map_of kvs ''view'' = None" "map_of kvs ''sort'' = None"
  shows "ListRecordsSchema (Some (JObj kvs)) = Inr (b, t, None, m, None, Some f)"
proof -
  from assms(1) have
    b: "z_min (Suc 0) ''Base ID is required'' z_string (map_of kvs ''baseId'') = Inr b" and
    t: "z_min (Suc 0) ''Table ID is required'' z_string (map_of kvs ''tableId'') = Inr t" and
    f: "z_min (Suc 0) ''Formula is required for search'' z_string (map_of kvs ''filterByFormula'') = Inr f" and
    m: "z_optional (z_max_num 100 (z_positive (z_int z_number))) (map_of kvs ''maxRecords'') = Inr m"
    by (simp_all add: SearchRecordsSchema_def z_object_def and_then_def split: sum.splits)
  from f have "z_optional z_string (map_of kvs ''filterByFormula'') = Inr (Some f)"
    by (rule required_string_as_optional)
  with b t m assms(2,3) show ?thesis
    by (simp add: ListRecordsSchema_def z_object_def and_then_def z_optional_def)
qed

text \<open>
  For the same provider, the result of searchRecords is not the result of listRecords
  with the same formula: the titles of the two texts differ.
\<close>

theorem search_and_list_results_differ:
  "fst (searchRecords_handler \<lparr> apiKey = ''key'' \<rparr> (sample_runtime (sample_response JNull))
          (''app1'', ''tbl1'', ''{Status}=1'', None) [])
     = success_result (json_block ''Search Results'' ''{}'')
   \<and> fst (listRecords_handler \<lparr> apiKey = ''key'' \<rparr> (sample_runtime (sample_response JNull))
          (''app1'', ''tbl1'', None, None, None, Some ''{Status}=1'') [])
     = success_result (json_block ''Records from tbl1'' ''{}'')
   \<and> fst (searchRecords_handler \<lparr> apiKey = ''key'' \<rparr> (sample_runtime (sample_response JNull))
          (''app1'', ''tbl1'', ''{Status}=1'', None) [])
     \<noteq> fst (listRecords_handler \<lparr> apiKey = ''key'' \<rparr> (sample_runtime (sample_response JNull))
          (''app1'', ''tbl1'', None, None, None, Some ''{Status}=1'') [])"
  by (simp add: searchRecords_handler_unfold listRecords_handler_unfold respond_def
      listRecords_def makeRequest_def sample_runtime_def sample_response_def
      success_result_def json_block_def Let_def)

text \<open>
  C10 (as amended). searchRecords issues the same request as listRecords with the options
  \<open>{ filterByFormula, maxRecords }\<close>, and arguments that the search schema accepts
  are accepted by the list schema with the same values when they name no view and no
  sort. The results carry the same serialised value or the same error message; they
  differ in the title (\<open>Search Results\<close>, \<open>Records from <tableId>\<close>) and, on
  failure, in the words \<open>search records\<close> and \<open>list records\<close>.
\<close>

theorem search_is_list_with_formula:
  "snd (searchRecords_handler svc rt (b, t, f, m) issued)
     = snd (listRecords_handler svc rt (b, t, None, m, None, Some f) issued)
   \<and> (case listRecords rt svc b t (None, m, None, Some f) issued of
        (Inr result, issued') \<Rightarrow>
          searchRecords_handler svc rt (b, t, f, m) issued
            = (success_result (json_block ''Search Results'' (JSON_stringify rt result (Some 2))),
               issued')
          \<and> listRecords_handler svc rt (b, t, None, m, None, Some f) issued
            = (success_result (json_block (''Records from '' @ t)
                 (JSON_stringify rt result (Some 2))), issued')
      | (Inl message, issued') \<Rightarrow>
          searchRecords_handler svc rt (b, t, f, m) issued
            = (error_result (error_text ''search records'' message), issued')
          \<and> listRecords_handler svc rt (b, t, None, m, None, Some f) issued
            = (error_result (error_text ''list records'' message), issued'))
   \<and> (SearchRecordsSchema (Some (JObj kvs)) = Inr (b, t, f, m) \<and>
      map_of kvs ''view'' = None \<and> map_of kvs ''sort'' = None \<longrightarrow>
        ListRecordsSchema (Some (JObj kvs)) = Inr (b, t, None, m, None, Some f))"
proof -
  obtain v issued' where c: "listRecords rt svc b t (None, m, None, Some f) issued = (v, issued')"
    by (cases "listRecords rt svc b t (None, m, None, Some f) issued")
  have 1: "snd (searchRecords_handler svc rt (b, t, f, m) issued)
     = snd (listRecords_handler svc rt (b, t, None, m, None, Some f) issued)"
    using c by (cases v) (simp_all add: searchRecords_handler_unfold listRecords_handler_unfold respond_def)
  have 2: "case listRecords rt svc b t (None, m, None, Some f) issued of
        (Inr result, issued') \<Rightarrow>
          searchRecords_handler svc rt (b, t, f, m) issued
            = (success_result (json_block ''Search Results'' (JSON_stringify rt result (Some 2))),
               issued')
          \<and> listRecords_handler svc rt (b, t, None, m, None, Some f) issued
            = (success_result (json_block (''Records from '' @ t)
                 (JSON_stringify rt result (Some 2))), issued')
      | (Inl message, issued') \<Rightarrow>
          searchRecords_handler svc rt (b, t, f, m) issued
            = (error_result (error_text ''search records'' message), issued')
          \<and> listRecords_handler svc rt (b, t, None, m, None, Some f) issued
            = (error_result (error_text ''list records'' message), issued')"
    using c by (cases v) (simp_all add: searchRecords_handler_unfold listRecords_handler_unfold respond_def)
  have 3: "SearchRecordsSchema (Some (JObj kvs)) = Inr (b, t, f, m) \<and>
      map_of kvs ''view'' = None \<and> map_of kvs ''sort'' = None \<longrightarrow>
        ListRecordsSchema (Some (JObj kvs)) = Inr (b, t, None, m, None, Some f)"
    using search_arguments_valid_for_list by blast
  from 1 2 3 show ?thesis by blast
qed

theorem search_is_list_with_formula_witness:
  "SearchRecordsSchema (Some (JObj search_args)) = Inr (''app1'', ''tbl1'', ''{Status}=1'', Some 5)
   \<and> ListRecordsSchema (Some (JObj search_args))
       = Inr (''app1'', ''tbl1'', None, Some 5, None, Some ''{Status}=1'')"
proof -
  have s: "SearchRecordsSchema (Some (JObj search_args)) = Inr (''app1'', ''tbl1'', ''{Status}=1'', Some 5)"
    by (simp add: SearchRecordsSchema_def search_args_def z_object_def z_min_def z_string_def
        z_optional_def z_max_num_def z_positive_def z_int_number and_then_def)
  with search_is_list_with_formula [where kvs = search_args and b = "''app1''" and t = "''tbl1''"
      and f = "''{Status}=1''" and m = "Some 5"]
  show ?thesis by (simp add: search_args_def)
qed

end
